theory Spec2Isabelle
  imports Complex_Main "HOL-Library.Word"
begin

section \<open>The tracker firmware: sampler, publisher and memory\<close>

text \<open>
  The repository holds three sketches of one GPS tracker firmware:
  \<^item> the heartbeat sketch (suffix \<open>_hb\<close>): movement signal \<open>F\<close>, position report
    \<open>G\<close>, heartbeat \<open>H\<close>, threshold 0.001 degrees, its own \<open>f_abs\<close>;
  \<^item> the motion-gated sketch \<open>gps-tracker.ino\<close> (suffix \<open>_mg\<close>): a transmit switch,
    an accelerometer gate, threshold 0.0005 degrees, \<open>abs\<close>;
  \<^item> the first sketch (suffix \<open>_v1\<close>): a transmit switch, threshold 0.001 degrees,
    signed differences.
  Each sketch has its own globals; the functions below take them as a record and return
  the return code, the messages handed to \<open>Particle.publish\<close> in order, and the globals
  after the call.

  A C \<open>float\<close> is a finite binary32 value, modelled as the \<open>real\<close> it denotes: the
  readings of the GPS are taken to be finite, so there is no NaN. Storing and comparing a
  \<open>float\<close> is exact; subtracting two of them rounds, and \<open>fsub\<close> below is that
  subtraction. \<open>millis()\<close> is an \<open>unsigned long\<close> of 32 bits, and the
  \<open>long\<close> globals that remember it are subtracted from it as unsigned 32-bit values, so
  both are \<open>32 word\<close>. One call of a function reads the clock and the sensors once: the
  sketch only refreshes the GPS in \<open>loop\<close> (\<open>t.updateGPS()\<close>), before the call.
  \<open>Serial.println\<close> is debugging output over USB, not a message, and is left out.
  \<open>abs\<close> in the motion-gated sketch is a function of the platform, not of the
  repository: it is a parameter of the model, like the other library functions.
\<close>

text \<open>What the AssetTracker, the fuel gauge and the clock answer during one call.\<close>

record sampler =
  gpsFix :: bool
  readLon :: real
  readLat :: real
  readLonDeg :: real
  readLatDeg :: real
  readLatLon :: string
  readXYZmagnitude :: int
  millis :: "32 word"
  getVCell :: real
  getSoC :: real

text \<open>
  Library functions of the platform whose code is not part of the repository: C's \<open>atoi\<close>,
  \<open>String::format("%.2f", x)\<close> and the \<open>abs\<close> the motion-gated sketch applies to a
  \<open>float\<close> (the value it hands back is stored in a \<open>float\<close>). They are parameters of
  the model.
\<close>

record platform =
  atoi :: "string \<Rightarrow> int"
  format2 :: "real \<Rightarrow> string"
  abs_pf :: "real \<Rightarrow> real"

text \<open>
  A message is the event name and the data of one \<open>Particle.publish(name, data, 60, PRIVATE)\<close>;
  every call of the sketches passes the same time to live and the same scope.
\<close>

type_synonym message = "string \<times> string"

text \<open>The globals all three sketches share, and those of each.\<close>

record tracker =
  lastPublish :: "32 word"
  previousCoordinatesSet :: bool
  previousLon :: real
  previousLat :: real

record tx_tracker = tracker +
  transmittingData :: int

record hb_tracker = tracker +
  lastPublishCheck :: "32 word"
  lastPublishType :: string

type_synonym 'm outcome = "int \<times> message list \<times> 'm"

definition code :: "'m outcome \<Rightarrow> int" where
  "code r = fst r"

definition sent :: "'m outcome \<Rightarrow> message list" where
  "sent r = fst (snd r)"

definition mem :: "'m outcome \<Rightarrow> 'm" where
  "mem r = snd (snd r)"

section \<open>Binary32 subtraction\<close>

text \<open>
  \<open>previousLon - thisLon\<close> is a subtraction of two \<open>float\<close>s: the exact difference
  rounded to the nearest binary32 value, ties to the even significand. \<open>exponent32\<close> is
  the exponent of the binade of its argument, from 127 down to -125, and -126 for the
  subnormal range; a unit in the last place is 23 binary places below it. A difference
  that rounds to \<open>2 ^ 128\<close> or beyond is infinite in C; the sketches only compare the
  difference (or its absolute value) with a threshold and never store it, so plus and
  minus \<open>2 ^ 128\<close> stand for the two infinities.

  The thresholds \<open>0.001\<close> and \<open>0.0005\<close> are \<open>double\<close> literals, and the \<open>float\<close> is
  widened to \<open>double\<close>, exactly, for the comparison. No binary32 value lies between such
  a decimal and the \<open>double\<close> nearest to it, so comparing with the decimal itself gives
  the same answer.
\<close>

fun expo_from :: "nat \<Rightarrow> real \<Rightarrow> int" where
  "expo_from 0 a = - 126"
| "expo_from (Suc n) a =
     (if 2 powi (int (Suc n) - 126) \<le> a then int (Suc n) - 126 else expo_from n a)"

definition exponent32 :: "real \<Rightarrow> int" where
  "exponent32 x = expo_from 253 \<bar>x\<bar>"

definition round_half_even :: "real \<Rightarrow> int" where
  "round_half_even r =
     (let n = \<lfloor>r\<rfloor>; d = r - of_int n
      in if d < 1 / 2 then n else if 1 / 2 < d then n + 1 else if even n then n else n + 1)"

definition round32 :: "real \<Rightarrow> real" where
  "round32 x =
     (let ulp = 2 powi (exponent32 x - 23);
          r = of_int (round_half_even (x / ulp)) * ulp
      in if 2 powi 128 \<le> \<bar>r\<bar> then (if x < 0 then - (2 powi 128) else 2 powi 128) else r)"

definition fsub :: "real \<Rightarrow> real \<Rightarrow> real" where
  "fsub x y = round32 (x - y)"

section \<open>The heartbeat sketch\<close>

definition delayMinutes_hb :: int where
  "delayMinutes_hb = 2"

definition delayHeartbeatMinutes :: int where
  "delayHeartbeatMinutes = 7"

definition init_hb :: hb_tracker where
  "init_hb = \<lparr> lastPublish = 0, previousCoordinatesSet = False, previousLon = 0,
     previousLat = 0, lastPublishCheck = 0, lastPublishType = ''F'' \<rparr>"

definition f_abs :: "real \<Rightarrow> real" where
  "f_abs f = (if f < 0 then -1 * f else f)"

definition gpsPublish_hb :: "hb_tracker \<Rightarrow> sampler \<Rightarrow> hb_tracker outcome" where
  "gpsPublish_hb m s =
     (if gpsFix s then
        (1, [(''G'', readLatLon s)],
         m\<lparr> previousLon := readLon s, previousLat := readLat s,
            previousCoordinatesSet := True \<rparr>)
      else (0, [], m))"

definition gpsPublishIfMoved_hb :: "hb_tracker \<Rightarrow> sampler \<Rightarrow> hb_tracker outcome" where
  "gpsPublishIfMoved_hb m s =
     (if \<not> gpsFix s then (5, [], m)
      else
        let m1 = (if \<not> previousCoordinatesSet m
                  then m\<lparr> previousLon := readLonDeg s, previousLat := readLatDeg s,
                          previousCoordinatesSet := True \<rparr>
                  else m);
            thisLon = readLonDeg s;
            thisLat = readLatDeg s;
            changeLon = f_abs (fsub (previousLon m1) thisLon);
            changeLat = f_abs (fsub (previousLat m1) thisLat)
        in
          if changeLon > 0.001 \<or> changeLat > 0.001 then
            let m2 = m1\<lparr> previousLon := thisLon, previousLat := thisLat \<rparr> in
              if lastPublishType m2 \<noteq> ''F'' then
                (2, [(''F'', '''')], m2\<lparr> lastPublishType := ''F'', lastPublish := millis s \<rparr>)
              else (4, [], m2)
          else if lastPublishType m1 = ''F'' then
            (3, [(''G'', readLatLon s)],
             m1\<lparr> lastPublishType := ''G'', lastPublish := millis s \<rparr>)
          else if millis s - lastPublish m1 > word_of_int (delayHeartbeatMinutes * 60 * 1000) then
            (0, [(''H'', '''')], m1\<lparr> lastPublishType := ''H'', lastPublish := millis s \<rparr>)
          else (1, [], m1))"

definition batteryStatus :: "platform \<Rightarrow> 'm \<Rightarrow> sampler \<Rightarrow> 'm outcome" where
  "batteryStatus pf m s =
     (if getSoC s > 10 then 1 else 0,
      [(''B'', ''v:'' @ format2 pf (getVCell s) @ '',c:'' @ format2 pf (getSoC s))],
      m)"

text \<open>One pass of \<open>loop\<close>: the messages of the pass and the globals after it.\<close>

definition loop_hb :: "hb_tracker \<Rightarrow> sampler \<Rightarrow> message list \<times> hb_tracker" where
  "loop_hb m s =
     (if millis s - lastPublishCheck m > word_of_int (delayMinutes_hb * 60 * 1000) then
        snd (gpsPublishIfMoved_hb (m\<lparr> lastPublishCheck := millis s \<rparr>) s)
      else ([], m))"

section \<open>The motion-gated sketch\<close>

definition delayMinutes_mg :: int where
  "delayMinutes_mg = 5"

definition accelThreshold :: int where
  "accelThreshold = 16000"

definition init_tx :: tx_tracker where
  "init_tx = \<lparr> lastPublish = 0, previousCoordinatesSet = False, previousLon = 0,
     previousLat = 0, transmittingData = 1 \<rparr>"

definition transmitMode :: "platform \<Rightarrow> tx_tracker \<Rightarrow> string \<Rightarrow> tx_tracker outcome" where
  "transmitMode pf m command = (1, [], m\<lparr> transmittingData := atoi pf command \<rparr>)"

definition gpsPublish_mg :: "tx_tracker \<Rightarrow> sampler \<Rightarrow> tx_tracker outcome" where
  "gpsPublish_mg m s =
     (if gpsFix s then
        (1, [(''G'', readLatLon s)],
         m\<lparr> previousLon := readLon s, previousLat := readLat s,
            previousCoordinatesSet := True \<rparr>)
      else (0, [], m))"

definition gpsPublishIfMoved_mg :: "platform \<Rightarrow> tx_tracker \<Rightarrow> sampler \<Rightarrow> tx_tracker outcome" where
  "gpsPublishIfMoved_mg pf m s =
     (if gpsFix s then
        if readXYZmagnitude s < accelThreshold then
          let thisLon = readLon s;
              thisLat = readLat s;
              changeLon = abs_pf pf (fsub (previousLon m) thisLon);
              changeLat = abs_pf pf (fsub (previousLat m) thisLat)
          in
            if \<not> previousCoordinatesSet m \<or> (changeLon > 0.0005 \<or> changeLat > 0.0005) then
              let m' = m\<lparr> previousLon := thisLon, previousLat := thisLat,
                          previousCoordinatesSet := True \<rparr> in
                if transmittingData m' \<noteq> 0 then (1, [(''G'', readLatLon s)], m')
                else (3, [], m')
            else (2, [], m)
        else (0, [], m)
      else (0, [], m))"

definition loop_mg :: "platform \<Rightarrow> tx_tracker \<Rightarrow> sampler \<Rightarrow> message list \<times> tx_tracker" where
  "loop_mg pf m s =
     (if millis s - lastPublish m > word_of_int (delayMinutes_mg * 60 * 1000) then
        snd (gpsPublishIfMoved_mg pf (m\<lparr> lastPublish := millis s \<rparr>) s)
      else ([], m))"

section \<open>The first sketch\<close>

definition delayMinutes_v1 :: int where
  "delayMinutes_v1 = 10"

definition gpsPublish_v1 :: "tx_tracker \<Rightarrow> sampler \<Rightarrow> tx_tracker outcome" where
  "gpsPublish_v1 m s =
     (if gpsFix s then (1, [(''G'', readLatLon s)], m) else (0, [], m))"

definition gpsPublishIfMoved_v1 :: "tx_tracker \<Rightarrow> sampler \<Rightarrow> tx_tracker outcome" where
  "gpsPublishIfMoved_v1 m s =
     (if gpsFix s then
        let thisLon = readLon s;
            thisLat = readLat s;
            changeLon = fsub (previousLon m) thisLon;
            changeLat = fsub (previousLat m) thisLat
        in
          if \<not> previousCoordinatesSet m \<or> (changeLon > 0.001 \<or> changeLat > 0.001) then
            let m' = m\<lparr> previousLon := thisLon, previousLat := thisLat,
                        previousCoordinatesSet := True \<rparr> in
              if transmittingData m' \<noteq> 0 then (1, [(''G'', readLatLon s)], m')
              else (3, [], m')
          else (2, [], m)
      else (0, [], m))"

definition loop_v1 :: "tx_tracker \<Rightarrow> sampler \<Rightarrow> message list \<times> tx_tracker" where
  "loop_v1 m s =
     (if millis s - lastPublish m > word_of_int (delayMinutes_v1 * 60 * 1000) then
        let m0 = m\<lparr> lastPublish := millis s \<rparr> in
          if gpsFix s then
            let thisLon = readLon s;
                thisLat = readLat s;
                changeLon = fsub (previousLon m0) thisLon;
                changeLat = fsub (previousLat m0) thisLat
            in
              if \<not> previousCoordinatesSet m0 \<or> (changeLon > 0.001 \<or> changeLat > 0.001) then
                let m' = m0\<lparr> previousLon := thisLon, previousLat := thisLat,
                             previousCoordinatesSet := True \<rparr> in
                  if transmittingData m' \<noteq> 0 then ([(''G'', readLatLon s)], m')
                  else ([], m')
              else ([], m0)
          else ([], m0)
      else ([], m))"

section \<open>Remote commands and runs of the firmware\<close>

text \<open>
  The firmware is entered by \<open>loop\<close> and by the functions registered with
  \<open>Particle.function\<close>. The heartbeat sketch registers no \<open>tmode\<close>: a call of it does
  not reach the firmware. The command string is ignored by every function but
  \<open>transmitMode\<close>.
\<close>

datatype command = Tick | Call_tmode string | Call_batt | Call_gps | Call_gpsIfMoved

fun step_hb :: "platform \<Rightarrow> hb_tracker \<Rightarrow> command \<times> sampler \<Rightarrow> message list \<times> hb_tracker" where
  "step_hb pf m (Tick, s) = loop_hb m s"
| "step_hb pf m (Call_tmode c, s) = ([], m)"
| "step_hb pf m (Call_batt, s) = snd (batteryStatus pf m s)"
| "step_hb pf m (Call_gps, s) = snd (gpsPublish_hb m s)"
| "step_hb pf m (Call_gpsIfMoved, s) = snd (gpsPublishIfMoved_hb m s)"

fun step_mg :: "platform \<Rightarrow> tx_tracker \<Rightarrow> command \<times> sampler \<Rightarrow> message list \<times> tx_tracker" where
  "step_mg pf m (Tick, s) = loop_mg pf m s"
| "step_mg pf m (Call_tmode c, s) = snd (transmitMode pf m c)"
| "step_mg pf m (Call_batt, s) = snd (batteryStatus pf m s)"
| "step_mg pf m (Call_gps, s) = snd (gpsPublish_mg m s)"
| "step_mg pf m (Call_gpsIfMoved, s) = snd (gpsPublishIfMoved_mg pf m s)"

fun step_v1 :: "platform \<Rightarrow> tx_tracker \<Rightarrow> command \<times> sampler \<Rightarrow> message list \<times> tx_tracker" where
  "step_v1 pf m (Tick, s) = loop_v1 m s"
| "step_v1 pf m (Call_tmode c, s) = snd (transmitMode pf m c)"
| "step_v1 pf m (Call_batt, s) = snd (batteryStatus pf m s)"
| "step_v1 pf m (Call_gps, s) = snd (gpsPublish_v1 m s)"
| "step_v1 pf m (Call_gpsIfMoved, s) = snd (gpsPublishIfMoved_v1 m s)"

text \<open>The globals before the first event and after each event of a run.\<close>

fun trace :: "('m \<Rightarrow> 'e \<Rightarrow> 'm) \<Rightarrow> 'm \<Rightarrow> 'e list \<Rightarrow> 'm list" where
  "trace f m [] = [m]"
| "trace f m (e # es) = m # trace f (f m e) es"

definition trace_hb :: "platform \<Rightarrow> hb_tracker \<Rightarrow> (command \<times> sampler) list \<Rightarrow> hb_tracker list" where
  "trace_hb pf = trace (\<lambda>m e. snd (step_hb pf m e))"

definition trace_mg :: "platform \<Rightarrow> tx_tracker \<Rightarrow> (command \<times> sampler) list \<Rightarrow> tx_tracker list" where
  "trace_mg pf = trace (\<lambda>m e. snd (step_mg pf m e))"

definition trace_v1 :: "platform \<Rightarrow> tx_tracker \<Rightarrow> (command \<times> sampler) list \<Rightarrow> tx_tracker list" where
  "trace_v1 pf = trace (\<lambda>m e. snd (step_v1 pf m e))"

text \<open>Repeated evaluation in the heartbeat sketch: the outcome of each call, in order.\<close>

fun run_ifMoved_hb :: "hb_tracker \<Rightarrow> sampler list \<Rightarrow> hb_tracker outcome list" where
  "run_ifMoved_hb m [] = []"
| "run_ifMoved_hb m (s # ss) =
     gpsPublishIfMoved_hb m s # run_ifMoved_hb (mem (gpsPublishIfMoved_hb m s)) ss"

text \<open>
  The test of line 130 of the heartbeat sketch on a sample with a fix, against the
  position the globals remember: \<open>changeLon\<close> or \<open>changeLat\<close>, as the sketch computes
  them in binary32, is more than 0.001 degrees.
\<close>

definition exceeds_hb :: "hb_tracker \<Rightarrow> sampler \<Rightarrow> bool" where
  "exceeds_hb m s \<longleftrightarrow>
     gpsFix s \<and> (f_abs (fsub (previousLon m) (readLonDeg s)) > 0.001
               \<or> f_abs (fsub (previousLat m) (readLatDeg s)) > 0.001)"

text \<open>Every call of a repeated evaluation finds its sample beyond the threshold.\<close>

fun all_exceed_hb :: "hb_tracker \<Rightarrow> sampler list \<Rightarrow> bool" where
  "all_exceed_hb m [] = True"
| "all_exceed_hb m (s # ss) =
     (exceeds_hb m s \<and> all_exceed_hb (mem (gpsPublishIfMoved_hb m s)) ss)"

text \<open>The clock readings of the calls of a repeated evaluation that sent a message.\<close>

fun emit_times_hb :: "hb_tracker \<Rightarrow> sampler list \<Rightarrow> 32 word list" where
  "emit_times_hb m [] = []"
| "emit_times_hb m (s # ss) =
     map (\<lambda>_. millis s) (sent (gpsPublishIfMoved_hb m s))
       @ emit_times_hb (mem (gpsPublishIfMoved_hb m s)) ss"

text \<open>
  Each clock reading of the list is more than \<open>d\<close> milliseconds after the one before
  it, in the unsigned 32-bit subtraction the sketch uses.
\<close>

fun spaced :: "32 word \<Rightarrow> 32 word list \<Rightarrow> bool" where
  "spaced d (t # u # ts) = (u - t > d \<and> spaced d (u # ts))"
| "spaced d ts = True"

text \<open>
  Every sample differs from the sample before it, and the first from the position
  \<open>(lon, lat)\<close>, by less than 0.001 degrees in both axes.
\<close>

fun consecutive_close :: "real \<times> real \<Rightarrow> sampler list \<Rightarrow> bool" where
  "consecutive_close p [] = True"
| "consecutive_close (lon, lat) (s # ss) =
     (\<bar>lon - readLonDeg s\<bar> < 0.001 \<and> \<bar>lat - readLatDeg s\<bar> < 0.001
      \<and> consecutive_close (readLonDeg s, readLatDeg s) ss)"

section \<open>Sample readings\<close>

text \<open>
  A reading with a fix at a position, with the text \<open>readLatLon\<close> gives for it and the
  clock; and a reading without a fix.
\<close>

definition fix_at :: "real \<Rightarrow> real \<Rightarrow> string \<Rightarrow> 32 word \<Rightarrow> sampler" where
  "fix_at lon lat txt now =
     \<lparr> gpsFix = True, readLon = lon, readLat = lat, readLonDeg = lon, readLatDeg = lat,
       readLatLon = txt, readXYZmagnitude = 9000, millis = now, getVCell = 4, getSoC = 80 \<rparr>"

definition no_fix_at :: "32 word \<Rightarrow> sampler" where
  "no_fix_at now =
     \<lparr> gpsFix = False, readLon = 0, readLat = 0, readLonDeg = 0, readLatDeg = 0,
       readLatLon = [], readXYZmagnitude = 9000, millis = now, getVCell = 4, getSoC = 80 \<rparr>"

definition plain_platform :: platform where
  "plain_platform = \<lparr> atoi = (\<lambda>c. if c = ''0'' then 0 else 1), format2 = (\<lambda>x. ''?''),
     abs_pf = (\<lambda>x. \<bar>x\<bar>) \<rparr>"

text \<open>
  Globals of the heartbeat sketch right after the first fix at (10, 20) was accepted and
  reported at clock 7; and after a movement signal at clock 120007 that left (10.25, 20.5)
  remembered.
\<close>

definition after_baseline :: hb_tracker where
  "after_baseline = \<lparr> lastPublish = 7, previousCoordinatesSet = True, previousLon = 10,
     previousLat = 20, lastPublishCheck = 7, lastPublishType = ''G'' \<rparr>"

definition moved_then_back :: hb_tracker where
  "moved_then_back = \<lparr> lastPublish = 120007, previousCoordinatesSet = True,
     previousLon = 10.25, previousLat = 20.5, lastPublishCheck = 120007,
     lastPublishType = ''F'' \<rparr>"

text \<open>
  A slow drift east, 0.0008 degrees between samples two minutes apart, then a stop; and
  samples, all binary32 values, that stay within 0.001 degrees of (10, 20), the last one
  without a fix.
\<close>

definition drift :: "sampler list" where
  "drift = [fix_at 10.0008 20 ''a'' 120007, fix_at 10.0016 20 ''b'' 240007,
            fix_at 10.0016 20 ''c'' 360007]"

definition parked :: "sampler list" where
  "parked = [fix_at 10.00048828125 20 ''a'' 120007,
            fix_at 10.000244140625 20.000244140625 ''b'' 240007,
            fix_at 10 20 ''c'' 420008, no_fix_at 540008]"

text \<open>Globals of the first sketch with the baseline (10, 20) and the switch on.\<close>

definition parked_v1 :: tx_tracker where
  "parked_v1 = \<lparr> lastPublish = 0, previousCoordinatesSet = True, previousLon = 10,
     previousLat = 20, transmittingData = 1 \<rparr>"


text \<open>A first evaluation with a fix, then a pass of \<open>loop\<close> without one.\<close>

definition boot_run :: "(command \<times> sampler) list" where
  "boot_run = [(Call_gpsIfMoved, fix_at 10 20 ''20,10'' 0), (Tick, no_fix_at 700000)]"

section \<open>Facts about the binary32 subtraction\<close>

lemma expo_from_binade:
  "2 powi e \<le> a \<Longrightarrow> a < 2 powi (e + 1) \<Longrightarrow> - 125 \<le> e \<Longrightarrow> e \<le> int n - 126 \<Longrightarrow>
   expo_from n a = e"
proof (induction n)
  case 0
  then show ?case by simp
next
  case (Suc n)
  show ?case
  proof (cases "e = int (Suc n) - 126")
    case True
    with Suc.prems show ?thesis by simp
  next
    case False
    with Suc.prems have le: "e + 1 \<le> int (Suc n) - 126" by simp
    have "(2::real) powi (e + 1) \<le> 2 powi (int (Suc n) - 126)"
      by (rule power_int_increasing [OF le]) simp
    with Suc.prems(2) have "\<not> 2 powi (int (Suc n) - 126) \<le> a" by simp
    moreover from le have "e \<le> int n - 126" by simp
    ultimately show ?thesis using Suc by simp
  qed
qed

lemma exponent32_eq:
  "2 powi e \<le> \<bar>x\<bar> \<Longrightarrow> \<bar>x\<bar> < 2 powi (e + 1) \<Longrightarrow> - 125 \<le> e \<Longrightarrow> e \<le> 127 \<Longrightarrow>
   exponent32 x = e"
  unfolding exponent32_def by (rule expo_from_binade) simp_all

lemma round32_zero: "round32 0 = 0"
  by (simp add: round32_def round_half_even_def Let_def)

lemma fsub_self: "fsub x x = 0"
  by (simp add: fsub_def round32_zero)

text \<open>Rounding to nearest, ties to even, commutes with negation.\<close>

lemma round_half_even_minus: "round_half_even (- r) = - round_half_even r"
proof (cases "r = of_int \<lfloor>r\<rfloor>")
  case True
  then obtain n :: int where r: "r = of_int n" ..
  have "round_half_even (of_int (- n)) = - round_half_even (of_int n)"
    by (simp add: round_half_even_def Let_def)
  then show ?thesis unfolding r by simp
next
  case False
  then have pos: "0 < r - of_int \<lfloor>r\<rfloor>" "r - of_int \<lfloor>r\<rfloor> < 1"
    by linarith+
  have fl: "\<lfloor>- r\<rfloor> = - \<lfloor>r\<rfloor> - 1"
    using pos by linarith
  show ?thesis
    using pos by (auto simp add: round_half_even_def Let_def fl)
qed

lemma round32_minus: "round32 (- x) = - round32 x"
proof (cases "x = 0")
  case True
  then show ?thesis by (simp add: round32_zero)
next
  case False
  then show ?thesis
    by (auto simp add: round32_def exponent32_def Let_def round_half_even_minus)
qed

lemma fsub_swap: "fsub y x = - fsub x y"
  using round32_minus [of "x - y"] by (simp add: fsub_def)

text \<open>The subtraction, once the binade of the exact difference is known.\<close>

lemma fsub_binade:
  assumes "2 powi e \<le> \<bar>x - y\<bar>" "\<bar>x - y\<bar> < 2 powi (e + 1)" "- 125 \<le> e" "e \<le> 127"
  shows "fsub x y =
     (let ulp = 2 powi (e - 23);
          r = of_int (round_half_even ((x - y) / ulp)) * ulp
      in if 2 powi 128 \<le> \<bar>r\<bar> then (if x - y < 0 then - (2 powi 128) else 2 powi 128) else r)"
  using exponent32_eq [OF assms] by (simp add: fsub_def round32_def)

text \<open>
  The rounding is visible at the threshold: these two binary32 values differ by less
  than 0.001, and their binary32 difference is more than 0.001.
\<close>

lemma fsub_rounds_across_threshold:
  "\<bar>8589934 / 2 ^ 33 - (- 9 / 2 ^ 37)\<bar> < (0.001::real)
   \<and> fsub (8589934 / 2 ^ 33) (- 9 / 2 ^ 37) = 8589935 / 2 ^ 33
   \<and> f_abs (fsub (8589934 / 2 ^ 33) (- 9 / 2 ^ 37)) > 0.001"
  using fsub_binade [of "- 10" "8589934 / 2 ^ 33" "- 9 / 2 ^ 37"]
  by (simp add: round_half_even_def Let_def f_abs_def)

text \<open>The differences the examples below use.\<close>

lemma fsub_10_10002: "fsub 10 10.002 = - (8589935 / 2 ^ 32)"
  using fsub_binade [of "- 9" 10 "10.002"] by (simp add: round_half_even_def Let_def)

lemma fsub_10_9998: "fsub 10 9.998 = 8589935 / 2 ^ 32"
  using fsub_binade [of "- 9" 10 "9.998"] by (simp add: round_half_even_def Let_def)

lemma fsub_20_20004: "fsub 20 20.004 = - (8589935 / 2 ^ 31)"
  using fsub_binade [of "- 8" 20 "20.004"] by (simp add: round_half_even_def Let_def)

lemma fsub_10_100008: "fsub 10 10.0008 = - (13743895 / 2 ^ 34)"
  using fsub_binade [of "- 11" 10 "10.0008"] by (simp add: round_half_even_def Let_def)

lemma fsub_10_100016: "fsub 10 10.0016 = - (13743895 / 2 ^ 33)"
  using fsub_binade [of "- 10" 10 "10.0016"] by (simp add: round_half_even_def Let_def)

lemma fsub_exact_11: "fsub 10 10.00048828125 = - (1 / 2 ^ 11)"
  using fsub_binade [of "- 11" 10 "10.00048828125"] by (simp add: round_half_even_def Let_def)

lemma fsub_exact_12: "fsub 10 10.000244140625 = - (1 / 2 ^ 12)"
  using fsub_binade [of "- 12" 10 "10.000244140625"] by (simp add: round_half_even_def Let_def)

lemma fsub_exact_12': "fsub 20 20.000244140625 = - (1 / 2 ^ 12)"
  using fsub_binade [of "- 12" 20 "20.000244140625"] by (simp add: round_half_even_def Let_def)

lemma fsub_exact_11': "fsub 10.25 10.25048828125 = - (1 / 2 ^ 11)"
  using fsub_binade [of "- 11" "10.25" "10.25048828125"]
  by (simp add: round_half_even_def Let_def)


lemma fsub_dm_lat: "fsub 2030 20.5 = 2009.5"
  using fsub_binade [of 10 2030 "20.5"] by (simp add: round_half_even_def Let_def)

section \<open>The branches of the heartbeat evaluation\<close>

lemmas hb_defs = gpsPublishIfMoved_hb_def Let_def code_def sent_def mem_def

lemma ifMoved_hb_no_fix: "\<not> gpsFix s \<Longrightarrow> gpsPublishIfMoved_hb m s = (5, [], m)"
  by (simp add: gpsPublishIfMoved_hb_def)

lemma ifMoved_hb_baseline:
  "gpsFix s \<Longrightarrow> previousCoordinatesSet (mem (gpsPublishIfMoved_hb m s))"
  by (simp add: hb_defs)

lemma ifMoved_hb_keeps_flag:
  "previousCoordinatesSet m \<Longrightarrow> previousCoordinatesSet (mem (gpsPublishIfMoved_hb m s))"
  by (simp add: hb_defs)

lemma ifMoved_hb_edge:
  assumes "previousCoordinatesSet m" "lastPublishType m \<noteq> ''F''" "exceeds_hb m s"
  shows "gpsPublishIfMoved_hb m s =
     (2, [(''F'', '''')],
      m\<lparr> previousLon := readLonDeg s, previousLat := readLatDeg s,
         lastPublishType := ''F'', lastPublish := millis s \<rparr>)"
  using assms by (auto simp add: gpsPublishIfMoved_hb_def exceeds_hb_def Let_def)

lemma ifMoved_hb_still_moving:
  assumes "previousCoordinatesSet m" "lastPublishType m = ''F''" "exceeds_hb m s"
  shows "gpsPublishIfMoved_hb m s =
     (4, [], m\<lparr> previousLon := readLonDeg s, previousLat := readLatDeg s \<rparr>)"
  using assms by (auto simp add: gpsPublishIfMoved_hb_def exceeds_hb_def Let_def)

lemma ifMoved_hb_stopped:
  assumes "previousCoordinatesSet m" "lastPublishType m = ''F''" "gpsFix s" "\<not> exceeds_hb m s"
  shows "gpsPublishIfMoved_hb m s =
     (3, [(''G'', readLatLon s)], m\<lparr> lastPublishType := ''G'', lastPublish := millis s \<rparr>)"
  using assms by (simp add: gpsPublishIfMoved_hb_def exceeds_hb_def Let_def)

lemma ifMoved_hb_heartbeat:
  assumes "previousCoordinatesSet m" "lastPublishType m \<noteq> ''F''" "gpsFix s" "\<not> exceeds_hb m s"
    "millis s - lastPublish m > 420000"
  shows "gpsPublishIfMoved_hb m s =
     (0, [(''H'', '''')], m\<lparr> lastPublishType := ''H'', lastPublish := millis s \<rparr>)"
  using assms
  by (simp add: gpsPublishIfMoved_hb_def exceeds_hb_def Let_def delayHeartbeatMinutes_def)

lemma ifMoved_hb_quiet:
  assumes "previousCoordinatesSet m" "lastPublishType m \<noteq> ''F''" "gpsFix s" "\<not> exceeds_hb m s"
    "\<not> millis s - lastPublish m > 420000"
  shows "gpsPublishIfMoved_hb m s = (1, [], m)"
  using assms
  by (simp add: gpsPublishIfMoved_hb_def exceeds_hb_def Let_def delayHeartbeatMinutes_def)

text \<open>
  The rounding decides the branch. From the baseline (\<open>8589934 / 2 ^ 33\<close>, 20) the
  sample at (\<open>- 9 / 2 ^ 37\<close>, 20) is less than 0.001 degrees away, but the binary32
  difference is \<open>8589935 / 2 ^ 33\<close>, more than 0.001: the sketch signals \<open>F\<close> and
  remembers the sample.
\<close>

lemma rounding_decides_branch:
  "gpsPublishIfMoved_hb (after_baseline\<lparr> previousLon := 8589934 / 2 ^ 33 \<rparr>)
      (fix_at (- 9 / 2 ^ 37) 20 ''x'' 120007)
     = (2, [(''F'', [])],
        after_baseline\<lparr> previousLon := - 9 / 2 ^ 37, previousLat := 20,
                         lastPublishType := ''F'', lastPublish := 120007 \<rparr>)"
proof -
  let ?m = "after_baseline\<lparr> previousLon := 8589934 / 2 ^ 33 \<rparr>"
  let ?s = "fix_at (- 9 / 2 ^ 37) 20 ''x'' 120007"
  have "exceeds_hb ?m ?s"
    using fsub_rounds_across_threshold by (simp add: exceeds_hb_def fix_at_def)
  moreover have "previousCoordinatesSet ?m" "lastPublishType ?m \<noteq> ''F''"
    by (simp_all add: after_baseline_def)
  ultimately have "gpsPublishIfMoved_hb ?m ?s =
     (2, [(''F'', [])],
      ?m\<lparr> previousLon := readLonDeg ?s, previousLat := readLatDeg ?s,
         lastPublishType := ''F'', lastPublish := millis ?s \<rparr>)"
    using ifMoved_hb_edge [of ?m ?s] by simp
  then show ?thesis by (simp add: fix_at_def)
qed

text \<open>
  One call on a sample that is not beyond the threshold: either nothing is sent and the
  globals stay, or one message is sent, the clock is remembered, the position stays, and
  unless the sketch was offline the heartbeat delay had gone by.
\<close>

lemma ifMoved_hb_within:
  assumes base: "previousCoordinatesSet m" and within: "\<not> exceeds_hb m s"
  shows "sent (gpsPublishIfMoved_hb m s) = [] \<and> mem (gpsPublishIfMoved_hb m s) = m
       \<or> (\<exists>x. sent (gpsPublishIfMoved_hb m s) = [x])
          \<and> lastPublishType (mem (gpsPublishIfMoved_hb m s)) \<noteq> ''F''
          \<and> lastPublish (mem (gpsPublishIfMoved_hb m s)) = millis s
          \<and> previousLon (mem (gpsPublishIfMoved_hb m s)) = previousLon m
          \<and> previousLat (mem (gpsPublishIfMoved_hb m s)) = previousLat m
          \<and> previousCoordinatesSet (mem (gpsPublishIfMoved_hb m s))
          \<and> (lastPublishType m \<noteq> ''F'' \<longrightarrow> millis s - lastPublish m > 420000)"
proof (cases "gpsFix s")
  case False
  then show ?thesis by (simp add: ifMoved_hb_no_fix sent_def mem_def)
next
  case True
  show ?thesis
  proof (cases "lastPublishType m = ''F''")
    case True
    from ifMoved_hb_stopped [OF base True \<open>gpsFix s\<close> within] True base
    show ?thesis by (simp add: sent_def mem_def)
  next
    case False
    show ?thesis
    proof (cases "millis s - lastPublish m > 420000")
      case True
      from ifMoved_hb_heartbeat [OF base False \<open>gpsFix s\<close> within True] True base
      show ?thesis by (simp add: sent_def mem_def)
    next
      case late: False
      from ifMoved_hb_quiet [OF base False \<open>gpsFix s\<close> within late]
      show ?thesis by (simp add: sent_def mem_def)
    qed
  qed
qed

lemma exceeds_hb_cong:
  "previousLon m' = previousLon m \<Longrightarrow> previousLat m' = previousLat m \<Longrightarrow>
   exceeds_hb m' s = exceeds_hb m s"
  by (simp add: exceeds_hb_def)

text \<open>
  In the heartbeat sketch the test is symmetric: swapping the remembered position and
  the sample does not change it. The motion-gated sketch is symmetric in the same way
  whenever the platform's \<open>abs\<close> gives a number and its negative the same value.
\<close>

lemma exceeds_hb_symmetric:
  "exceeds_hb (h\<lparr> previousLon := a, previousLat := b \<rparr>)
      (s\<lparr> readLonDeg := a', readLatDeg := b' \<rparr>)
     = exceeds_hb (h\<lparr> previousLon := a', previousLat := b' \<rparr>)
      (s\<lparr> readLonDeg := a, readLatDeg := b \<rparr>)"
  using fsub_swap [of a a'] fsub_swap [of b b']
  by (auto simp add: exceeds_hb_def f_abs_def)

lemma ifMoved_mg_symmetric:
  assumes "\<And>y. abs_pf pf (- y) = abs_pf pf y"
  shows "code (gpsPublishIfMoved_mg pf (m\<lparr> previousLon := a, previousLat := b \<rparr>)
          (s\<lparr> readLon := a', readLat := b' \<rparr>))
     = code (gpsPublishIfMoved_mg pf (m\<lparr> previousLon := a', previousLat := b' \<rparr>)
          (s\<lparr> readLon := a, readLat := b \<rparr>))"
  using assms [of "fsub a' a"] assms [of "fsub b' b"] fsub_swap [of a a'] fsub_swap [of b b']
  by (simp add: gpsPublishIfMoved_mg_def Let_def code_def)

section \<open>Runs\<close>

lemma length_trace: "length (trace f m es) = Suc (length es)"
  by (induction es arbitrary: m) simp_all

lemma trace_invariant:
  assumes step: "\<And>m e. P m \<Longrightarrow> P (f m e)"
  shows "P m \<Longrightarrow> \<forall>x \<in> set (trace f m es). P x"
  by (induction es arbitrary: m) (auto intro: step)

lemma trace_last_invariant:
  assumes step: "\<And>m e. P m \<Longrightarrow> P (f m e)"
  shows "P m \<Longrightarrow> P (last (trace f m es))"
proof (induction es arbitrary: m)
  case Nil
  then show ?case by simp
next
  case (Cons e es)
  have "trace f (f m e) es \<noteq> []" by (cases es) simp_all
  with Cons step show ?case by simp
qed

lemma trace_monotone:
  assumes step: "\<And>m e. P m \<Longrightarrow> P (f m e)"
  shows "i \<le> j \<Longrightarrow> j \<le> length es \<Longrightarrow> P (trace f m es ! i) \<Longrightarrow> P (trace f m es ! j)"
proof (induction es arbitrary: m i j)
  case Nil
  then show ?case by simp
next
  case (Cons e es)
  show ?case
  proof (cases i)
    case 0
    with Cons.prems have "P m" by simp
    then have "\<forall>x \<in> set (trace f m (e # es)). P x"
      using trace_invariant [of P f m "e # es"] step by blast
    moreover have "j < length (trace f m (e # es))"
      using Cons.prems(2) by (simp add: length_trace)
    ultimately show ?thesis using nth_mem by blast
  next
    case (Suc i')
    with Cons.prems obtain j' where j: "j = Suc j'" by (cases j) simp_all
    from Cons.prems Suc j have "i' \<le> j'" "j' \<le> length es" "P (trace f (f m e) es ! i')"
      by simp_all
    then have "P (trace f (f m e) es ! j')" by (rule Cons.IH)
    with j show ?thesis by simp
  qed
qed

text \<open>No entry point of any sketch clears the baseline flag.\<close>

lemma step_hb_keeps_flag:
  "previousCoordinatesSet m \<Longrightarrow> previousCoordinatesSet (snd (step_hb pf m e))"
proof -
  assume flag: "previousCoordinatesSet m"
  obtain c s where e: "e = (c, s)" by (cases e)
  show ?thesis
  proof (cases c)
    case Tick
    have "previousCoordinatesSet (m\<lparr>lastPublishCheck := millis s\<rparr>)" using flag by simp
    from ifMoved_hb_keeps_flag [OF this, of s] flag show ?thesis
      by (simp add: e Tick loop_hb_def mem_def)
  next
    case (Call_tmode x)
    with flag show ?thesis by (simp add: e)
  next
    case Call_batt
    with flag show ?thesis by (simp add: e batteryStatus_def)
  next
    case Call_gps
    with flag show ?thesis by (simp add: e gpsPublish_hb_def)
  next
    case Call_gpsIfMoved
    from ifMoved_hb_keeps_flag [OF flag, of s] show ?thesis
      by (simp add: e Call_gpsIfMoved mem_def)
  qed
qed

lemma step_mg_keeps_flag:
  "previousCoordinatesSet m \<Longrightarrow> previousCoordinatesSet (snd (step_mg pf m e))"
proof -
  assume flag: "previousCoordinatesSet m"
  obtain c s where e: "e = (c, s)" by (cases e)
  show ?thesis
    using flag
    by (cases c)
       (simp_all add: e loop_mg_def gpsPublishIfMoved_mg_def gpsPublish_mg_def
          batteryStatus_def transmitMode_def Let_def)
qed

lemma step_v1_keeps_flag:
  "previousCoordinatesSet m \<Longrightarrow> previousCoordinatesSet (snd (step_v1 pf m e))"
proof -
  assume flag: "previousCoordinatesSet m"
  obtain c s where e: "e = (c, s)" by (cases e)
  show ?thesis
    using flag
    by (cases c)
       (simp_all add: e loop_v1_def gpsPublishIfMoved_v1_def gpsPublish_v1_def
          batteryStatus_def transmitMode_def Let_def)
qed

text \<open>
  In the heartbeat sketch a message kind other than \<open>F\<close> is only ever recorded
  together with a baseline: the sketch starts with \<open>F\<close>, and every path of
  \<open>gpsPublishIfMoved\<close> that writes the kind has set the flag before.
\<close>

lemma ifMoved_hb_invariant:
  "(lastPublishType m \<noteq> ''F'' \<longrightarrow> previousCoordinatesSet m) \<Longrightarrow>
   lastPublishType (mem (gpsPublishIfMoved_hb m s)) \<noteq> ''F'' \<longrightarrow>
   previousCoordinatesSet (mem (gpsPublishIfMoved_hb m s))"
  by (cases "gpsFix s") (simp_all add: hb_defs)

lemma step_hb_invariant:
  "(lastPublishType m \<noteq> ''F'' \<longrightarrow> previousCoordinatesSet m) \<Longrightarrow>
   lastPublishType (snd (step_hb pf m e)) \<noteq> ''F'' \<longrightarrow>
   previousCoordinatesSet (snd (step_hb pf m e))"
proof -
  assume inv: "lastPublishType m \<noteq> ''F'' \<longrightarrow> previousCoordinatesSet m"
  obtain c s where e: "e = (c, s)" by (cases e)
  show ?thesis
  proof (cases c)
    case Tick
    have "lastPublishType (m\<lparr>lastPublishCheck := millis s\<rparr>) \<noteq> ''F'' \<longrightarrow>
          previousCoordinatesSet (m\<lparr>lastPublishCheck := millis s\<rparr>)"
      using inv by simp
    from ifMoved_hb_invariant [OF this, of s] inv show ?thesis
      by (simp add: e Tick loop_hb_def mem_def)
  next
    case (Call_tmode x)
    with inv show ?thesis by (simp add: e)
  next
    case Call_batt
    with inv show ?thesis by (simp add: e batteryStatus_def)
  next
    case Call_gps
    with inv show ?thesis by (simp add: e gpsPublish_hb_def)
  next
    case Call_gpsIfMoved
    from ifMoved_hb_invariant [OF inv, of s] show ?thesis
      by (simp add: e Call_gpsIfMoved mem_def)
  qed
qed

lemma reached_hb_baseline:
  "lastPublishType (last (trace_hb pf init_hb es)) \<noteq> ''F'' \<Longrightarrow>
   previousCoordinatesSet (last (trace_hb pf init_hb es))"
proof -
  have "lastPublishType init_hb \<noteq> ''F'' \<longrightarrow> previousCoordinatesSet init_hb"
    by (simp add: init_hb_def)
  then have "lastPublishType (last (trace_hb pf init_hb es)) \<noteq> ''F'' \<longrightarrow>
        previousCoordinatesSet (last (trace_hb pf init_hb es))"
    unfolding trace_hb_def
    by (rule trace_last_invariant
          [where P = "\<lambda>m. lastPublishType m \<noteq> ''F'' \<longrightarrow> previousCoordinatesSet m", rotated])
       (rule step_hb_invariant)
  then show "lastPublishType (last (trace_hb pf init_hb es)) \<noteq> ''F'' \<Longrightarrow>
   previousCoordinatesSet (last (trace_hb pf init_hb es))" by simp
qed

text \<open>While the sketch is offline and every sample is beyond the threshold, every call
  returns 4 and sends nothing.\<close>

lemma run_still_moving:
  "previousCoordinatesSet m \<Longrightarrow> lastPublishType m = ''F'' \<Longrightarrow> all_exceed_hb m ss \<Longrightarrow>
   map (\<lambda>r. (code r, sent r)) (run_ifMoved_hb m ss) = replicate (length ss) (4, [])
   \<and> list_all (\<lambda>r. lastPublishType (mem r) = ''F'') (run_ifMoved_hb m ss)"
proof (induction ss arbitrary: m)
  case Nil
  then show ?case by simp
next
  case (Cons s ss)
  from Cons.prems have ex: "exceeds_hb m s" by simp
  note r = ifMoved_hb_still_moving [OF Cons.prems(1,2) ex]
  let ?m' = "m\<lparr> previousLon := readLonDeg s, previousLat := readLatDeg s \<rparr>"
  have m': "mem (gpsPublishIfMoved_hb m s) = ?m'" by (simp add: r mem_def)
  have "previousCoordinatesSet ?m'" "lastPublishType ?m' = ''F''"
    using Cons.prems by simp_all
  moreover have "all_exceed_hb ?m' ss" using Cons.prems(3) m' by simp
  ultimately have IH: "map (\<lambda>r. (code r, sent r)) (run_ifMoved_hb ?m' ss)
       = replicate (length ss) (4, [])
   \<and> list_all (\<lambda>r. lastPublishType (mem r) = ''F'') (run_ifMoved_hb ?m' ss)"
    by (rule Cons.IH)
  have "lastPublishType (mem (gpsPublishIfMoved_hb m s)) = ''F''"
    using m' Cons.prems(2) by simp
  with IH m' show ?case by (simp add: r code_def sent_def)
qed

text \<open>While every sample stays within the threshold of the remembered position, the
  position stays and the messages keep the heartbeat delay.\<close>

lemma run_within_position:
  "previousCoordinatesSet m \<Longrightarrow> list_all (\<lambda>s. \<not> exceeds_hb m s) ss \<Longrightarrow>
   list_all (\<lambda>r. previousLon (mem r) = previousLon m \<and> previousLat (mem r) = previousLat m
                  \<and> length (sent r) \<le> 1) (run_ifMoved_hb m ss)"
proof (induction ss arbitrary: m)
  case Nil
  then show ?case by simp
next
  case (Cons s ss)
  let ?r = "gpsPublishIfMoved_hb m s"
  from Cons.prems have within: "\<not> exceeds_hb m s" by simp
  from ifMoved_hb_within [OF Cons.prems(1) within]
  have now: "previousLon (mem ?r) = previousLon m \<and> previousLat (mem ?r) = previousLat m
     \<and> previousCoordinatesSet (mem ?r) \<and> length (sent ?r) \<le> 1"
    using Cons.prems(1) by auto
  then have "list_all (\<lambda>s. \<not> exceeds_hb (mem ?r) s) ss"
    using Cons.prems(2) by (simp add: exceeds_hb_cong [of "mem ?r" m])
  with now have "list_all (\<lambda>r. previousLon (mem r) = previousLon (mem ?r)
       \<and> previousLat (mem r) = previousLat (mem ?r) \<and> length (sent r) \<le> 1)
     (run_ifMoved_hb (mem ?r) ss)"
    by (intro Cons.IH) simp_all
  with now show ?case by simp
qed

lemma run_within_spaced:
  "previousCoordinatesSet m \<Longrightarrow> list_all (\<lambda>s. \<not> exceeds_hb m s) ss \<Longrightarrow>
   spaced 420000 (emit_times_hb m ss)
   \<and> (lastPublishType m \<noteq> ''F'' \<longrightarrow> spaced 420000 (lastPublish m # emit_times_hb m ss))"
proof (induction ss arbitrary: m)
  case Nil
  then show ?case by simp
next
  case (Cons s ss)
  let ?r = "gpsPublishIfMoved_hb m s"
  from Cons.prems have within: "\<not> exceeds_hb m s" by simp
  note split = ifMoved_hb_within [OF Cons.prems(1) within]
  from split have keep: "previousLon (mem ?r) = previousLon m \<and> previousLat (mem ?r) = previousLat m
     \<and> previousCoordinatesSet (mem ?r)"
    using Cons.prems(1) by auto
  then have "list_all (\<lambda>s. \<not> exceeds_hb (mem ?r) s) ss"
    using Cons.prems(2) by (simp add: exceeds_hb_cong [of "mem ?r" m])
  with keep have IH: "spaced 420000 (emit_times_hb (mem ?r) ss)
   \<and> (lastPublishType (mem ?r) \<noteq> ''F'' \<longrightarrow>
        spaced 420000 (lastPublish (mem ?r) # emit_times_hb (mem ?r) ss))"
    by (intro Cons.IH) simp_all
  from split show ?case
  proof
    assume "sent ?r = [] \<and> mem ?r = m"
    with IH show ?thesis by simp
  next
    assume sent1: "(\<exists>x. sent ?r = [x])
          \<and> lastPublishType (mem ?r) \<noteq> ''F''
          \<and> lastPublish (mem ?r) = millis s
          \<and> previousLon (mem ?r) = previousLon m
          \<and> previousLat (mem ?r) = previousLat m
          \<and> previousCoordinatesSet (mem ?r)
          \<and> (lastPublishType m \<noteq> ''F'' \<longrightarrow> millis s - lastPublish m > 420000)"
    then obtain x where x: "sent ?r = [x]"
      by blast
    from sent1 have "lastPublishType (mem ?r) \<noteq> ''F''" "lastPublish (mem ?r) = millis s"
      by simp_all
    with IH have rest: "spaced 420000 (millis s # emit_times_hb (mem ?r) ss)" by simp
    have times: "emit_times_hb m (s # ss) = millis s # emit_times_hb (mem ?r) ss"
      by (simp add: x)
    from sent1 rest show ?thesis
      unfolding times by simp
  qed
qed

section \<open>The movement edge\<close>

text \<open>
  C1. Heartbeat sketch. Take any globals \<open>m\<close> the sketch reaches from its start by any
  run of \<open>loop\<close> passes and remote calls, with the last message kind not \<open>F\<close>, and
  samples \<open>s # ss\<close> with a fix, each beyond the 0.001 degree threshold in some axis
  against the position remembered when it is evaluated (the delta being \<open>changeLon\<close> or
  \<open>changeLat\<close> as the sketch computes it). Then the first call of
  \<open>gpsPublishIfMoved\<close> returns 2 and sends exactly the one message \<open>F\<close> with empty data,
  and records it (\<open>lastPublishType\<close> is \<open>F\<close>, \<open>lastPublish\<close> the clock of the call);
  every later call returns 4 and sends nothing, and the kind stays \<open>F\<close>.
\<close>

theorem movement_edge_signals_once:
  assumes reached: "m = last (trace_hb pf init_hb es)"
    and online: "lastPublishType m \<noteq> ''F''"
    and moving: "all_exceed_hb m (s # ss)"
  shows "map (\<lambda>r. (code r, sent r)) (run_ifMoved_hb m (s # ss))
           = (2, [(''F'', '''')]) # replicate (length ss) (4, [])
       \<and> lastPublishType (mem (gpsPublishIfMoved_hb m s)) = ''F''
       \<and> lastPublish (mem (gpsPublishIfMoved_hb m s)) = millis s
       \<and> list_all (\<lambda>r. lastPublishType (mem r) = ''F'') (run_ifMoved_hb m (s # ss))"
proof -
  have base: "previousCoordinatesSet m"
    using reached online reached_hb_baseline by simp
  from moving have ex: "exceeds_hb m s" by simp
  note r = ifMoved_hb_edge [OF base online ex]
  let ?m' = "m\<lparr> previousLon := readLonDeg s, previousLat := readLatDeg s,
         lastPublishType := ''F'', lastPublish := millis s \<rparr>"
  have m': "mem (gpsPublishIfMoved_hb m s) = ?m'" by (simp add: r mem_def)
  have "previousCoordinatesSet ?m'" "lastPublishType ?m' = ''F''"
    using base by simp_all
  moreover have "all_exceed_hb ?m' ss" using moving m' by simp
  ultimately have rest: "map (\<lambda>r. (code r, sent r)) (run_ifMoved_hb ?m' ss)
       = replicate (length ss) (4, [])
   \<and> list_all (\<lambda>r. lastPublishType (mem r) = ''F'') (run_ifMoved_hb ?m' ss)"
    by (rule run_still_moving)
  with m' show ?thesis by (simp add: r code_def sent_def)
qed

theorem movement_edge_signals_once_witness:
  "lastPublishType (last (trace_hb plain_platform init_hb
       [(Call_gpsIfMoved, fix_at 10 20 ''20,10'' 7)])) \<noteq> ''F''
   \<and> all_exceed_hb (last (trace_hb plain_platform init_hb
          [(Call_gpsIfMoved, fix_at 10 20 ''20,10'' 7)]))
        [fix_at 10.002 20 ''a'' 120007, fix_at 10.002 20.004 ''b'' 240007]
   \<and> map (\<lambda>r. (code r, sent r))
        (run_ifMoved_hb (last (trace_hb plain_platform init_hb
             [(Call_gpsIfMoved, fix_at 10 20 ''20,10'' 7)]))
           [fix_at 10.002 20 ''a'' 120007, fix_at 10.002 20.004 ''b'' 240007])
      = [(2, [(''F'', '''')]), (4, [])]"
proof -
  let ?m = "last (trace_hb plain_platform init_hb [(Call_gpsIfMoved, fix_at 10 20 ''20,10'' 7)])"
  let ?s1 = "fix_at 10.002 20 ''a'' 120007"
  let ?s2 = "fix_at 10.002 20.004 ''b'' 240007"
  have m: "?m = \<lparr> lastPublish = 7, previousCoordinatesSet = True, previousLon = 10,
     previousLat = 20, lastPublishCheck = 0, lastPublishType = ''G'' \<rparr>"
    by (simp add: trace_hb_def gpsPublishIfMoved_hb_def init_hb_def fix_at_def f_abs_def Let_def
          fsub_self)
  have online: "lastPublishType ?m \<noteq> ''F''"
    unfolding m by simp
  have base: "previousCoordinatesSet ?m"
    unfolding m by simp
  have e1: "exceeds_hb ?m ?s1"
    unfolding m using fsub_10_10002 by (simp add: exceeds_hb_def fix_at_def f_abs_def)
  have m1: "mem (gpsPublishIfMoved_hb ?m ?s1) = \<lparr> lastPublish = 120007,
     previousCoordinatesSet = True, previousLon = 10.002, previousLat = 20,
     lastPublishCheck = 0, lastPublishType = ''F'' \<rparr>"
    unfolding ifMoved_hb_edge [OF base online e1] unfolding m
    by (simp add: mem_def fix_at_def)
  have e2: "exceeds_hb (mem (gpsPublishIfMoved_hb ?m ?s1)) ?s2"
    unfolding m1 using fsub_20_20004
    by (simp add: exceeds_hb_def fix_at_def f_abs_def fsub_self)
  have moving: "all_exceed_hb ?m [?s1, ?s2]"
    using e1 e2 by simp
  from movement_edge_signals_once [OF refl online moving] online moving
  show ?thesis by simp
qed

section \<open>Back to stationary\<close>

text \<open>
  C2. Heartbeat sketch. If the last message kind is \<open>F\<close> and the sample has a fix and
  neither delta is above the threshold (\<open>changeLon\<close> and \<open>changeLat\<close> as the sketch
  computes them: the binary32 difference from the remembered position, when there is
  one, made positive by \<open>f_abs\<close>), \<open>gpsPublishIfMoved\<close> returns 3 and sends the position
  report \<open>G\<close> with the text of \<open>readLatLon\<close>, whatever the clock \<open>now\<close> reads and
  whatever time \<open>t0\<close> the last message was sent at; afterwards \<open>lastPublishType\<close> is
  \<open>G\<close> and \<open>lastPublish\<close> is \<open>now\<close>.
\<close>

theorem return_to_stationary_reports:
  assumes hasfix: "gpsFix s"
    and offline: "lastPublishType m = ''F''"
    and still: "previousCoordinatesSet m \<longrightarrow>
                  f_abs (fsub (previousLon m) (readLonDeg s)) \<le> 0.001
                  \<and> f_abs (fsub (previousLat m) (readLatDeg s)) \<le> 0.001"
  shows "code (gpsPublishIfMoved_hb (m\<lparr> lastPublish := t0 \<rparr>) (s\<lparr> millis := now \<rparr>)) = 3
       \<and> sent (gpsPublishIfMoved_hb (m\<lparr> lastPublish := t0 \<rparr>) (s\<lparr> millis := now \<rparr>))
           = [(''G'', readLatLon s)]
       \<and> lastPublishType (mem (gpsPublishIfMoved_hb (m\<lparr> lastPublish := t0 \<rparr>)
                                  (s\<lparr> millis := now \<rparr>))) = ''G''
       \<and> lastPublish (mem (gpsPublishIfMoved_hb (m\<lparr> lastPublish := t0 \<rparr>)
                              (s\<lparr> millis := now \<rparr>))) = now"
proof (cases "previousCoordinatesSet m")
  case True
  with assms show ?thesis
    by (simp add: gpsPublishIfMoved_hb_def Let_def code_def sent_def mem_def)
next
  case False
  with hasfix offline show ?thesis
    by (simp add: gpsPublishIfMoved_hb_def Let_def code_def sent_def mem_def f_abs_def fsub_self)
qed

theorem return_to_stationary_reports_witness:
  "gpsFix (fix_at 10.25048828125 20.5 ''20.5,10.250488'' 0)
   \<and> lastPublishType moved_then_back = ''F''
   \<and> previousCoordinatesSet moved_then_back
   \<and> f_abs (fsub (previousLon moved_then_back)
              (readLonDeg (fix_at 10.25048828125 20.5 ''20.5,10.250488'' 0))) \<le> 0.001
   \<and> f_abs (fsub (previousLat moved_then_back)
              (readLatDeg (fix_at 10.25048828125 20.5 ''20.5,10.250488'' 0))) \<le> 0.001
   \<and> code (gpsPublishIfMoved_hb (moved_then_back\<lparr> lastPublish := 120007 \<rparr>)
              ((fix_at 10.25048828125 20.5 ''20.5,10.250488'' 0)\<lparr> millis := 120008 \<rparr>)) = 3
   \<and> sent (gpsPublishIfMoved_hb (moved_then_back\<lparr> lastPublish := 120007 \<rparr>)
              ((fix_at 10.25048828125 20.5 ''20.5,10.250488'' 0)\<lparr> millis := 120008 \<rparr>))
       = [(''G'', ''20.5,10.250488'')]"
proof -
  let ?s = "fix_at 10.25048828125 20.5 ''20.5,10.250488'' 0"
  have hasfix: "gpsFix ?s" by (simp add: fix_at_def)
  have offline: "lastPublishType moved_then_back = ''F''"
    and base: "previousCoordinatesSet moved_then_back"
    by (simp_all add: moved_then_back_def)
  have near: "f_abs (fsub (previousLon moved_then_back) (readLonDeg ?s)) \<le> 0.001
        \<and> f_abs (fsub (previousLat moved_then_back) (readLatDeg ?s)) \<le> 0.001"
    using fsub_exact_11' by (simp add: moved_then_back_def fix_at_def f_abs_def fsub_self)
  then have still: "previousCoordinatesSet moved_then_back \<longrightarrow>
        f_abs (fsub (previousLon moved_then_back) (readLonDeg ?s)) \<le> 0.001
        \<and> f_abs (fsub (previousLat moved_then_back) (readLatDeg ?s)) \<le> 0.001"
    by blast
  have payload: "readLatLon ?s = ''20.5,10.250488''" by (simp add: fix_at_def)
  from return_to_stationary_reports [OF hasfix offline still, of 120007 120008]
  have "code (gpsPublishIfMoved_hb (moved_then_back\<lparr> lastPublish := 120007 \<rparr>)
              (?s\<lparr> millis := 120008 \<rparr>)) = 3
   \<and> sent (gpsPublishIfMoved_hb (moved_then_back\<lparr> lastPublish := 120007 \<rparr>)
              (?s\<lparr> millis := 120008 \<rparr>)) = [(''G'', ''20.5,10.250488'')]"
    unfolding payload by blast
  with hasfix offline base near show ?thesis by blast
qed

section \<open>No fix\<close>

text \<open>
  C3. Whatever the globals hold, \<open>gpsPublishIfMoved\<close> called without a GPS fix returns
  the globals as they were, every field of them, hands no message to the publisher and
  returns the code of the sketch for "no fix": 5 in the heartbeat sketch, 0 in the
  motion-gated and in the first sketch.
\<close>

theorem no_fix_is_noop:
  assumes "\<not> gpsFix s"
  shows "gpsPublishIfMoved_hb h s = (5, [], h)
       \<and> gpsPublishIfMoved_mg pf m s = (0, [], m)
       \<and> gpsPublishIfMoved_v1 m s = (0, [], m)"
  using assms
  by (simp add: gpsPublishIfMoved_hb_def gpsPublishIfMoved_mg_def gpsPublishIfMoved_v1_def)

theorem no_fix_is_noop_witness:
  "\<not> gpsFix (no_fix_at 5)
   \<and> gpsPublishIfMoved_hb init_hb (no_fix_at 5) = (5, [], init_hb)
   \<and> gpsPublishIfMoved_mg plain_platform init_tx (no_fix_at 5) = (0, [], init_tx)
   \<and> gpsPublishIfMoved_v1 init_tx (no_fix_at 5) = (0, [], init_tx)"
proof -
  have nf: "\<not> gpsFix (no_fix_at 5)"
    by (simp add: no_fix_at_def)
  show ?thesis
    using nf no_fix_is_noop [OF nf, of init_hb plain_platform init_tx] by simp
qed

section \<open>The baseline flag\<close>

text \<open>
  C4. \<open>previousCoordinatesSet\<close> is monotonic. In every sketch it starts false. An
  evaluation with a fix (in the motion-gated sketch: with a fix and the magnitude below
  \<open>accelThreshold\<close>) leaves it true. Along every run of \<open>loop\<close> passes and remote calls
  (\<open>tmode\<close>, \<open>batt\<close>, \<open>gps\<close>, \<open>gpsIfMoved\<close>) from any globals, once the flag is true at
  step \<open>i\<close> it is true at every later step \<open>j\<close>: it turns true at most once and never
  turns false.
\<close>

theorem baseline_flag_monotonic:
  "\<not> previousCoordinatesSet init_hb \<and> \<not> previousCoordinatesSet init_tx
   \<and> (gpsFix s \<longrightarrow> previousCoordinatesSet (mem (gpsPublishIfMoved_hb h s)))
   \<and> (gpsFix s \<and> readXYZmagnitude s < accelThreshold \<longrightarrow>
        previousCoordinatesSet (mem (gpsPublishIfMoved_mg pf m s)))
   \<and> (gpsFix s \<longrightarrow> previousCoordinatesSet (mem (gpsPublishIfMoved_v1 m s)))
   \<and> (i \<le> j \<and> j \<le> length es \<and> previousCoordinatesSet (trace_hb pf h es ! i) \<longrightarrow>
        previousCoordinatesSet (trace_hb pf h es ! j))
   \<and> (i \<le> j \<and> j \<le> length es \<and> previousCoordinatesSet (trace_mg pf m es ! i) \<longrightarrow>
        previousCoordinatesSet (trace_mg pf m es ! j))
   \<and> (i \<le> j \<and> j \<le> length es \<and> previousCoordinatesSet (trace_v1 pf m es ! i) \<longrightarrow>
        previousCoordinatesSet (trace_v1 pf m es ! j))"
proof -
  have start: "\<not> previousCoordinatesSet init_hb \<and> \<not> previousCoordinatesSet init_tx"
    by (simp add: init_hb_def init_tx_def)
  have hb: "gpsFix s \<longrightarrow> previousCoordinatesSet (mem (gpsPublishIfMoved_hb h s))"
    by (simp add: ifMoved_hb_baseline)
  have mg: "gpsFix s \<and> readXYZmagnitude s < accelThreshold \<longrightarrow>
        previousCoordinatesSet (mem (gpsPublishIfMoved_mg pf m s))"
    by (simp add: gpsPublishIfMoved_mg_def Let_def mem_def)
  have v1: "gpsFix s \<longrightarrow> previousCoordinatesSet (mem (gpsPublishIfMoved_v1 m s))"
    by (simp add: gpsPublishIfMoved_v1_def Let_def mem_def)
  have thb: "i \<le> j \<and> j \<le> length es \<and> previousCoordinatesSet (trace_hb pf h es ! i) \<longrightarrow>
        previousCoordinatesSet (trace_hb pf h es ! j)"
    unfolding trace_hb_def
    using trace_monotone [where P = previousCoordinatesSet and f = "\<lambda>m e. snd (step_hb pf m e)"]
      step_hb_keeps_flag by blast
  have tmg: "i \<le> j \<and> j \<le> length es \<and> previousCoordinatesSet (trace_mg pf m es ! i) \<longrightarrow>
        previousCoordinatesSet (trace_mg pf m es ! j)"
    unfolding trace_mg_def
    using trace_monotone [where P = previousCoordinatesSet and f = "\<lambda>m e. snd (step_mg pf m e)"]
      step_mg_keeps_flag by blast
  have tv1: "i \<le> j \<and> j \<le> length es \<and> previousCoordinatesSet (trace_v1 pf m es ! i) \<longrightarrow>
        previousCoordinatesSet (trace_v1 pf m es ! j)"
    unfolding trace_v1_def
    using trace_monotone [where P = previousCoordinatesSet and f = "\<lambda>m e. snd (step_v1 pf m e)"]
      step_v1_keeps_flag by blast
  from start hb mg v1 thb tmg tv1 show ?thesis by blast
qed

theorem baseline_flag_monotonic_witness:
  "gpsFix (fix_at 10 20 ''20,10'' 0)
   \<and> readXYZmagnitude (fix_at 10 20 ''20,10'' 0) < accelThreshold
   \<and> (1::nat) \<le> 2 \<and> 2 \<le> length boot_run
   \<and> \<not> previousCoordinatesSet (trace_hb plain_platform init_hb boot_run ! 0)
   \<and> previousCoordinatesSet (trace_hb plain_platform init_hb boot_run ! 1)
   \<and> previousCoordinatesSet (trace_hb plain_platform init_hb boot_run ! 2)
   \<and> \<not> previousCoordinatesSet (trace_mg plain_platform init_tx boot_run ! 0)
   \<and> previousCoordinatesSet (trace_mg plain_platform init_tx boot_run ! 1)
   \<and> previousCoordinatesSet (trace_mg plain_platform init_tx boot_run ! 2)
   \<and> \<not> previousCoordinatesSet (trace_v1 plain_platform init_tx boot_run ! 0)
   \<and> previousCoordinatesSet (trace_v1 plain_platform init_tx boot_run ! 1)
   \<and> previousCoordinatesSet (trace_v1 plain_platform init_tx boot_run ! 2)"
proof -
  let ?s = "fix_at 10 20 ''20,10'' 0"
  note inst = baseline_flag_monotonic [where s = ?s and h = init_hb and m = init_tx
      and i = 1 and j = 2 and es = boot_run and pf = plain_platform]
  have hasfix: "gpsFix ?s" and gate: "readXYZmagnitude ?s < accelThreshold"
    by (simp_all add: fix_at_def accelThreshold_def)
  have len: "(1::nat) \<le> 2 \<and> 2 \<le> length boot_run"
    by (simp add: boot_run_def)
  have hb0: "\<not> previousCoordinatesSet (trace_hb plain_platform init_hb boot_run ! 0)"
    and mg0: "\<not> previousCoordinatesSet (trace_mg plain_platform init_tx boot_run ! 0)"
    and v10: "\<not> previousCoordinatesSet (trace_v1 plain_platform init_tx boot_run ! 0)"
    using inst by (simp_all add: boot_run_def trace_hb_def trace_mg_def trace_v1_def)
  have "trace_hb plain_platform init_hb boot_run ! 1 = mem (gpsPublishIfMoved_hb init_hb ?s)"
    by (simp add: boot_run_def trace_hb_def mem_def)
  with inst hasfix
  have hb1: "previousCoordinatesSet (trace_hb plain_platform init_hb boot_run ! 1)"
    by simp
  have "trace_mg plain_platform init_tx boot_run ! 1
          = mem (gpsPublishIfMoved_mg plain_platform init_tx ?s)"
    by (simp add: boot_run_def trace_mg_def mem_def)
  with inst hasfix gate
  have mg1: "previousCoordinatesSet (trace_mg plain_platform init_tx boot_run ! 1)"
    by simp
  have "trace_v1 plain_platform init_tx boot_run ! 1 = mem (gpsPublishIfMoved_v1 init_tx ?s)"
    by (simp add: boot_run_def trace_v1_def mem_def)
  with inst hasfix
  have v11: "previousCoordinatesSet (trace_v1 plain_platform init_tx boot_run ! 1)"
    by simp
  from inst len hb1
  have hb2: "previousCoordinatesSet (trace_hb plain_platform init_hb boot_run ! 2)"
    by blast
  from inst len mg1
  have mg2: "previousCoordinatesSet (trace_mg plain_platform init_tx boot_run ! 2)"
    by blast
  from inst len v11
  have v12: "previousCoordinatesSet (trace_v1 plain_platform init_tx boot_run ! 2)"
    by blast
  from hasfix gate len hb0 hb1 hb2 mg0 mg1 mg2 v10 v11 v12 show ?thesis by blast
qed

section \<open>Signed differences in the first sketch\<close>

text \<open>
  C5. The first sketch compares the signed differences \<open>previousLon - thisLon\<close> and
  \<open>previousLat - thisLat\<close> with the threshold. From the baseline (10, 20) a move of
  0.002 degrees west is reported (code 1, one \<open>G\<close> message, the position remembered),
  the mirror move of 0.002 degrees east is answered with code 2, "not enough change":
  nothing is sent and the remembered position stays. The heartbeat sketch takes the
  absolute value with \<open>f_abs\<close> and the motion-gated sketch calls \<open>abs\<close>
  (\<open>exceeds_hb_symmetric\<close>, \<open>ifMoved_mg_symmetric\<close>).
\<close>

theorem v1_detects_one_direction_only:
  "gpsPublishIfMoved_v1 parked_v1 (fix_at 9.998 20 ''west'' 0)
     = (1, [(''G'', ''west'')], parked_v1\<lparr> previousLon := 9.998 \<rparr>)
   \<and> gpsPublishIfMoved_v1 parked_v1 (fix_at 10.002 20 ''east'' 0) = (2, [], parked_v1)"
  using fsub_10_9998 fsub_10_10002
  by (simp add: gpsPublishIfMoved_v1_def Let_def parked_v1_def fix_at_def fsub_self)

theorem v1_detects_one_direction_only_witness:
  "previousCoordinatesSet parked_v1
   \<and> code (gpsPublishIfMoved_v1 parked_v1 (fix_at 10.002 20 ''east'' 0))
       \<noteq> code (gpsPublishIfMoved_v1 parked_v1 (fix_at 9.998 20 ''west'' 0))
   \<and> sent (gpsPublishIfMoved_v1 parked_v1 (fix_at 10.002 20 ''east'' 0)) = []
   \<and> previousLon (mem (gpsPublishIfMoved_v1 parked_v1 (fix_at 10.002 20 ''east'' 0))) = 10"
proof -
  have base: "previousCoordinatesSet parked_v1" and lon: "previousLon parked_v1 = 10"
    by (simp_all add: parked_v1_def)
  from v1_detects_one_direction_only base lon
  show ?thesis by (simp add: code_def sent_def mem_def)
qed

section \<open>A tracker that stays put\<close>

text \<open>
  C6, as the claim states it, fails: the sketch measures each sample against the
  remembered position, not against the sample before it. From the baseline (10, 20)
  three samples, each less than 0.001 degrees from the one before, drift 0.0016 degrees
  away: the second call signals \<open>F\<close> and remembers the new position, the third reports
  \<open>G\<close> two minutes later, well inside the heartbeat delay of seven minutes.
\<close>

theorem slow_drift_counterexample:
  "previousCoordinatesSet after_baseline
   \<and> consecutive_close (previousLon after_baseline, previousLat after_baseline) drift
   \<and> previousLon (mem (last (run_ifMoved_hb after_baseline drift))) \<noteq> previousLon after_baseline
   \<and> map sent (run_ifMoved_hb after_baseline drift) = [[], [(''F'', '''')], [(''G'', ''c'')]]
   \<and> emit_times_hb after_baseline drift = [240007, 360007]
   \<and> \<not> spaced 420000 (emit_times_hb after_baseline drift)"
proof -
  let ?s1 = "fix_at 10.0008 20 ''a'' 120007"
  let ?s2 = "fix_at 10.0016 20 ''b'' 240007"
  let ?s3 = "fix_at 10.0016 20 ''c'' 360007"
  let ?m2 = "after_baseline\<lparr> previousLon := 10.0016, previousLat := 20,
               lastPublishType := ''F'', lastPublish := 240007 \<rparr>"
  have close: "consecutive_close (previousLon after_baseline, previousLat after_baseline) drift"
    by (simp add: after_baseline_def drift_def fix_at_def)
  have base: "previousCoordinatesSet after_baseline"
    and online: "lastPublishType after_baseline \<noteq> ''F''"
    by (simp_all add: after_baseline_def)
  have r1: "gpsPublishIfMoved_hb after_baseline ?s1 = (1, [], after_baseline)"
    using fsub_10_100008
    by (intro ifMoved_hb_quiet [OF base online])
       (simp_all add: after_baseline_def fix_at_def exceeds_hb_def f_abs_def fsub_self)
  have "gpsPublishIfMoved_hb after_baseline ?s2 =
     (2, [(''F'', '''')],
      after_baseline\<lparr> previousLon := readLonDeg ?s2, previousLat := readLatDeg ?s2,
         lastPublishType := ''F'', lastPublish := millis ?s2 \<rparr>)"
    using fsub_10_100016
    by (intro ifMoved_hb_edge [OF base online])
       (simp add: after_baseline_def fix_at_def exceeds_hb_def f_abs_def fsub_self)
  then have r2: "gpsPublishIfMoved_hb after_baseline ?s2 = (2, [(''F'', '''')], ?m2)"
    by (simp add: fix_at_def)
  have "gpsPublishIfMoved_hb ?m2 ?s3 =
     (3, [(''G'', readLatLon ?s3)], ?m2\<lparr> lastPublishType := ''G'', lastPublish := millis ?s3 \<rparr>)"
    by (rule ifMoved_hb_stopped)
       (simp_all add: after_baseline_def fix_at_def exceeds_hb_def f_abs_def fsub_self)
  then have r3: "gpsPublishIfMoved_hb ?m2 ?s3 =
     (3, [(''G'', ''c'')], ?m2\<lparr> lastPublishType := ''G'', lastPublish := 360007 \<rparr>)"
    by (simp add: fix_at_def)
  have run: "run_ifMoved_hb after_baseline drift =
     [(1, [], after_baseline), (2, [(''F'', '''')], ?m2),
      (3, [(''G'', ''c'')], ?m2\<lparr> lastPublishType := ''G'', lastPublish := 360007 \<rparr>)]"
    unfolding drift_def run_ifMoved_hb.simps r1 r2 r3 mem_def snd_conv by (rule refl)
  have times: "emit_times_hb after_baseline drift = [240007, 360007]"
    unfolding drift_def emit_times_hb.simps r1 r2 r3 mem_def sent_def snd_conv fst_conv
    by (simp add: fix_at_def)
  have moved: "previousLon (mem (last (run_ifMoved_hb after_baseline drift)))
                 \<noteq> previousLon after_baseline"
    unfolding run by (simp add: mem_def after_baseline_def)
  have msgs: "map sent (run_ifMoved_hb after_baseline drift) = [[], [(''F'', '''')], [(''G'', ''c'')]]"
    unfolding run by (simp add: sent_def)
  have pace: "\<not> spaced 420000 (emit_times_hb after_baseline drift)"
    unfolding times by simp
  from base close moved msgs times pace show ?thesis by blast
qed

text \<open>
  C6, amended. Heartbeat sketch, after baseline. If every sample of a sequence that has
  a fix is within 0.001 degrees, in both axes, of the position the globals remember, the
  delta taken as the sketch computes it (the binary32 difference, made positive by
  \<open>f_abs\<close>, not above 0.001; samples without a fix may come in between), then repeated
  evaluation never changes
  \<open>previousLon\<close> and \<open>previousLat\<close>, each call sends at most one message, and each
  message of the sequence comes more than 420000 milliseconds (seven minutes, on the
  32-bit clock) after the one before it; when the last message kind before the sequence
  is not \<open>F\<close>, the first message of the sequence also comes more than 420000
  milliseconds after \<open>lastPublish\<close>.
\<close>

theorem still_tracker_keeps_position_and_pace:
  assumes base: "previousCoordinatesSet m"
    and within: "list_all (\<lambda>s. \<not> exceeds_hb m s) ss"
  shows "list_all (\<lambda>r. previousLon (mem r) = previousLon m \<and> previousLat (mem r) = previousLat m
                        \<and> length (sent r) \<le> 1) (run_ifMoved_hb m ss)
       \<and> spaced 420000 (emit_times_hb m ss)
       \<and> (lastPublishType m \<noteq> ''F'' \<longrightarrow> spaced 420000 (lastPublish m # emit_times_hb m ss))"
  using run_within_position [OF base within] run_within_spaced [OF base within] by blast

theorem still_tracker_keeps_position_and_pace_witness:
  "previousCoordinatesSet after_baseline
   \<and> list_all (\<lambda>s. \<not> exceeds_hb after_baseline s) parked
   \<and> list_all (\<lambda>r. previousLon (mem r) = 10 \<and> previousLat (mem r) = 20)
        (run_ifMoved_hb after_baseline parked)
   \<and> lastPublishType after_baseline \<noteq> ''F''
   \<and> spaced 420000 (lastPublish after_baseline # emit_times_hb after_baseline parked)"
proof -
  have base: "previousCoordinatesSet after_baseline"
    and online: "lastPublishType after_baseline \<noteq> ''F''"
    and pos: "previousLon after_baseline = 10" "previousLat after_baseline = 20"
    by (simp_all add: after_baseline_def)
  have within: "list_all (\<lambda>s. \<not> exceeds_hb after_baseline s) parked"
    using fsub_exact_11 fsub_exact_12 fsub_exact_12'
    by (simp add: parked_def after_baseline_def exceeds_hb_def fix_at_def no_fix_at_def
          f_abs_def fsub_self)
  from still_tracker_keeps_position_and_pace [OF base within]
  have "list_all (\<lambda>r. previousLon (mem r) = 10 \<and> previousLat (mem r) = 20 \<and> length (sent r) \<le> 1)
          (run_ifMoved_hb after_baseline parked)"
    and pace: "spaced 420000 (lastPublish after_baseline # emit_times_hb after_baseline parked)"
    using online by (simp_all add: pos)
  then have "list_all (\<lambda>r. previousLon (mem r) = 10 \<and> previousLat (mem r) = 20)
          (run_ifMoved_hb after_baseline parked)"
    by (simp add: list_all_iff)
  with base within online pace show ?thesis by blast
qed

section \<open>The first fix\<close>

text \<open>
  C7, as the claim states it, fails: the heartbeat sketch starts with the message kind
  \<open>F\<close>, so the first call with a fix, here at longitude 10 and latitude 20, sends the
  position report \<open>G\<close>.
\<close>

theorem first_fix_silent_counterexample:
  "sent (gpsPublishIfMoved_hb init_hb (fix_at 10 20 ''20.0000,10.0000'' 0))
     = [(''G'', ''20.0000,10.0000'')]
   \<and> sent (gpsPublishIfMoved_hb init_hb (fix_at 10 20 ''20.0000,10.0000'' 0)) \<noteq> []"
  by (simp add: sent_def gpsPublishIfMoved_hb_def init_hb_def fix_at_def f_abs_def Let_def
        fsub_self)

text \<open>
  C7, amended. In the heartbeat sketch (threshold 0.001 degrees, heartbeat delay 7
  minutes) the first call of \<open>gpsPublishIfMoved\<close> with a fix, from the globals the sketch
  starts with (whatever \<open>loop\<close> has written to \<open>lastPublishCheck\<close>), accepts the position
  as baseline, sends exactly one position report \<open>G\<close> with the text of \<open>readLatLon\<close>,
  returns 3, and records the kind \<open>G\<close> and the clock.
\<close>

theorem first_fix_reports_position:
  assumes "gpsFix s"
  shows "gpsPublishIfMoved_hb (init_hb\<lparr> lastPublishCheck := c \<rparr>) s =
     (3, [(''G'', readLatLon s)],
      init_hb\<lparr> lastPublishCheck := c, previousLon := readLonDeg s, previousLat := readLatDeg s,
               previousCoordinatesSet := True, lastPublishType := ''G'',
               lastPublish := millis s \<rparr>)
    \<and> delayHeartbeatMinutes = 7"
  using assms
  by (simp add: gpsPublishIfMoved_hb_def init_hb_def f_abs_def Let_def delayHeartbeatMinutes_def
        fsub_self)

theorem first_fix_reports_position_witness:
  "gpsFix (fix_at 10 20 ''20.0000,10.0000'' 3)
   \<and> code (gpsPublishIfMoved_hb (init_hb\<lparr> lastPublishCheck := 0 \<rparr>)
             (fix_at 10 20 ''20.0000,10.0000'' 3)) = 3"
proof -
  have hasfix: "gpsFix (fix_at 10 20 ''20.0000,10.0000'' 3)" by (simp add: fix_at_def)
  from first_fix_reports_position [OF hasfix, of 0] hasfix
  show ?thesis by (simp add: code_def)
qed

section \<open>The transmit switch\<close>

text \<open>
  C8. In the two sketches with a transmit switch (motion-gated and first), for all
  globals \<open>m\<close>, every sample \<open>s\<close> and any two values \<open>a\<close> and \<open>b\<close> of
  \<open>transmittingData\<close>: the globals after \<open>gpsPublishIfMoved\<close> are the same for \<open>a\<close>
  and \<open>b\<close> (but for the switch itself, which the call leaves as it was). The return
  code with the switch at \<open>a\<close> is the code with the switch off, except that 3 ("would
  have sent") becomes 1 when \<open>a\<close> is not zero; and a message, the report \<open>G\<close>, is sent
  exactly when the code is 1.
\<close>

theorem transmit_switch_gates_only_publisher:
  "mem (gpsPublishIfMoved_mg pf (m\<lparr> transmittingData := a \<rparr>) s)
     = (mem (gpsPublishIfMoved_mg pf (m\<lparr> transmittingData := b \<rparr>) s))\<lparr> transmittingData := a \<rparr>
   \<and> code (gpsPublishIfMoved_mg pf (m\<lparr> transmittingData := a \<rparr>) s)
     = (if code (gpsPublishIfMoved_mg pf (m\<lparr> transmittingData := 0 \<rparr>) s) = 3 \<and> a \<noteq> 0 then 1
        else code (gpsPublishIfMoved_mg pf (m\<lparr> transmittingData := 0 \<rparr>) s))
   \<and> sent (gpsPublishIfMoved_mg pf (m\<lparr> transmittingData := a \<rparr>) s)
     = (if code (gpsPublishIfMoved_mg pf (m\<lparr> transmittingData := a \<rparr>) s) = 1
        then [(''G'', readLatLon s)] else [])
   \<and> mem (gpsPublishIfMoved_v1 (m\<lparr> transmittingData := a \<rparr>) s)
     = (mem (gpsPublishIfMoved_v1 (m\<lparr> transmittingData := b \<rparr>) s))\<lparr> transmittingData := a \<rparr>
   \<and> code (gpsPublishIfMoved_v1 (m\<lparr> transmittingData := a \<rparr>) s)
     = (if code (gpsPublishIfMoved_v1 (m\<lparr> transmittingData := 0 \<rparr>) s) = 3 \<and> a \<noteq> 0 then 1
        else code (gpsPublishIfMoved_v1 (m\<lparr> transmittingData := 0 \<rparr>) s))
   \<and> sent (gpsPublishIfMoved_v1 (m\<lparr> transmittingData := a \<rparr>) s)
     = (if code (gpsPublishIfMoved_v1 (m\<lparr> transmittingData := a \<rparr>) s) = 1
        then [(''G'', readLatLon s)] else [])"
proof -
  have mg: "mem (gpsPublishIfMoved_mg pf (m\<lparr> transmittingData := a \<rparr>) s)
     = (mem (gpsPublishIfMoved_mg pf (m\<lparr> transmittingData := b \<rparr>) s))\<lparr> transmittingData := a \<rparr>"
    by (simp add: gpsPublishIfMoved_mg_def Let_def mem_def)
  have mg_code: "code (gpsPublishIfMoved_mg pf (m\<lparr> transmittingData := a \<rparr>) s)
     = (if code (gpsPublishIfMoved_mg pf (m\<lparr> transmittingData := 0 \<rparr>) s) = 3 \<and> a \<noteq> 0 then 1
        else code (gpsPublishIfMoved_mg pf (m\<lparr> transmittingData := 0 \<rparr>) s))"
    by (simp add: gpsPublishIfMoved_mg_def Let_def code_def)
  have mg_sent: "sent (gpsPublishIfMoved_mg pf (m\<lparr> transmittingData := a \<rparr>) s)
     = (if code (gpsPublishIfMoved_mg pf (m\<lparr> transmittingData := a \<rparr>) s) = 1
        then [(''G'', readLatLon s)] else [])"
    by (simp add: gpsPublishIfMoved_mg_def Let_def code_def sent_def)
  have v1: "mem (gpsPublishIfMoved_v1 (m\<lparr> transmittingData := a \<rparr>) s)
     = (mem (gpsPublishIfMoved_v1 (m\<lparr> transmittingData := b \<rparr>) s))\<lparr> transmittingData := a \<rparr>"
    by (simp add: gpsPublishIfMoved_v1_def Let_def mem_def)
  have v1_code: "code (gpsPublishIfMoved_v1 (m\<lparr> transmittingData := a \<rparr>) s)
     = (if code (gpsPublishIfMoved_v1 (m\<lparr> transmittingData := 0 \<rparr>) s) = 3 \<and> a \<noteq> 0 then 1
        else code (gpsPublishIfMoved_v1 (m\<lparr> transmittingData := 0 \<rparr>) s))"
    by (simp add: gpsPublishIfMoved_v1_def Let_def code_def)
  have v1_sent: "sent (gpsPublishIfMoved_v1 (m\<lparr> transmittingData := a \<rparr>) s)
     = (if code (gpsPublishIfMoved_v1 (m\<lparr> transmittingData := a \<rparr>) s) = 1
        then [(''G'', readLatLon s)] else [])"
    by (simp add: gpsPublishIfMoved_v1_def Let_def code_def sent_def)
  from mg mg_code mg_sent v1 v1_code v1_sent show ?thesis by blast
qed

theorem transmit_switch_gates_only_publisher_witness:
  "mem (gpsPublishIfMoved_mg plain_platform (init_tx\<lparr> transmittingData := 1 \<rparr>) (fix_at 10 20 ''20,10'' 0))
     = (mem (gpsPublishIfMoved_mg plain_platform (init_tx\<lparr> transmittingData := 0 \<rparr>) (fix_at 10 20 ''20,10'' 0)))
         \<lparr> transmittingData := 1 \<rparr>
   \<and> code (gpsPublishIfMoved_mg plain_platform (init_tx\<lparr> transmittingData := 0 \<rparr>) (fix_at 10 20 ''20,10'' 0)) = 3
   \<and> code (gpsPublishIfMoved_mg plain_platform (init_tx\<lparr> transmittingData := 1 \<rparr>) (fix_at 10 20 ''20,10'' 0)) = 1
   \<and> sent (gpsPublishIfMoved_mg plain_platform (init_tx\<lparr> transmittingData := 1 \<rparr>) (fix_at 10 20 ''20,10'' 0))
       = [(''G'', ''20,10'')]"
proof -
  have off: "code (gpsPublishIfMoved_mg plain_platform (init_tx\<lparr> transmittingData := 0 \<rparr>)
                    (fix_at 10 20 ''20,10'' 0)) = 3"
    by (simp add: gpsPublishIfMoved_mg_def Let_def code_def init_tx_def fix_at_def
          accelThreshold_def)
  have payload: "readLatLon (fix_at 10 20 ''20,10'' 0) = ''20,10''"
    by (simp add: fix_at_def)
  from transmit_switch_gates_only_publisher
    [where m = init_tx and a = 1 and b = 0 and s = "fix_at 10 20 ''20,10'' 0"
       and pf = plain_platform] off payload
  show ?thesis by simp
qed

text \<open>
  C9, as the claim states it, fails: with \<open>transmittingData\<close> at 0 a forced position
  publish with a fix still hands its \<open>G\<close> message to the publisher, and the battery
  report its \<open>B\<close> message. Neither function reads the switch.
\<close>

theorem switch_off_silences_all_counterexample:
  "transmittingData (init_tx\<lparr> transmittingData := 0 \<rparr>) = 0
   \<and> sent (gpsPublish_mg (init_tx\<lparr> transmittingData := 0 \<rparr>) (fix_at 10 20 ''20,10'' 0))
       = [(''G'', ''20,10'')]
   \<and> sent (gpsPublish_v1 (init_tx\<lparr> transmittingData := 0 \<rparr>) (fix_at 10 20 ''20,10'' 0))
       = [(''G'', ''20,10'')]
   \<and> sent (batteryStatus plain_platform (init_tx\<lparr> transmittingData := 0 \<rparr>)
             (fix_at 10 20 ''20,10'' 0))
       = [(''B'', ''v:?,c:?'')]"
  by (simp add: gpsPublish_mg_def gpsPublish_v1_def batteryStatus_def sent_def init_tx_def
        fix_at_def plain_platform_def)

text \<open>
  C9, amended. In the sketches with a transmit switch, while \<open>transmittingData\<close> is 0
  the periodic evaluation hands no message to the publisher: neither a pass of \<open>loop\<close>
  nor \<open>gpsPublishIfMoved\<close> sends anything (nor does \<open>transmitMode\<close>). The forced position
  publish and the battery report are not gated by the switch: \<open>gpsPublish\<close> sends its
  report \<open>G\<close> whenever there is a fix, and \<open>batteryStatus\<close> always sends its report
  \<open>B\<close>.
\<close>

theorem switch_off_silences_periodic_only:
  assumes off: "transmittingData m = 0"
  shows "sent (gpsPublishIfMoved_mg pf m s) = [] \<and> fst (loop_mg pf m s) = []
       \<and> sent (gpsPublishIfMoved_v1 m s) = [] \<and> fst (loop_v1 m s) = []
       \<and> sent (transmitMode pf m c) = []
       \<and> sent (gpsPublish_mg m s) = (if gpsFix s then [(''G'', readLatLon s)] else [])
       \<and> sent (gpsPublish_v1 m s) = (if gpsFix s then [(''G'', readLatLon s)] else [])
       \<and> sent (batteryStatus pf m s)
           = [(''B'', ''v:'' @ format2 pf (getVCell s) @ '',c:'' @ format2 pf (getSoC s))]"
proof -
  have a: "sent (gpsPublishIfMoved_mg pf m s) = []"
    using off by (simp add: gpsPublishIfMoved_mg_def Let_def sent_def)
  have b: "fst (loop_mg pf m s) = []"
    using off by (simp add: loop_mg_def gpsPublishIfMoved_mg_def Let_def)
  have c: "sent (gpsPublishIfMoved_v1 m s) = []"
    using off by (simp add: gpsPublishIfMoved_v1_def Let_def sent_def)
  have d: "fst (loop_v1 m s) = []"
    using off by (simp add: loop_v1_def Let_def)
  have e: "sent (transmitMode pf m c) = []"
    by (simp add: transmitMode_def sent_def)
  have f: "sent (gpsPublish_mg m s) = (if gpsFix s then [(''G'', readLatLon s)] else [])"
    by (simp add: gpsPublish_mg_def sent_def)
  have g: "sent (gpsPublish_v1 m s) = (if gpsFix s then [(''G'', readLatLon s)] else [])"
    by (simp add: gpsPublish_v1_def sent_def)
  have h: "sent (batteryStatus pf m s)
           = [(''B'', ''v:'' @ format2 pf (getVCell s) @ '',c:'' @ format2 pf (getSoC s))]"
    by (simp add: batteryStatus_def sent_def)
  from a b c d e f g h show ?thesis by blast
qed

theorem switch_off_silences_periodic_only_witness:
  "transmittingData (init_tx\<lparr> transmittingData := 0 \<rparr>) = 0
   \<and> sent (gpsPublishIfMoved_mg plain_platform (init_tx\<lparr> transmittingData := 0 \<rparr>)
             (fix_at 10 20 ''20,10'' 700000)) = []
   \<and> fst (loop_mg plain_platform (init_tx\<lparr> transmittingData := 0 \<rparr>)
          (fix_at 10 20 ''20,10'' 700000)) = []
   \<and> fst (loop_v1 (init_tx\<lparr> transmittingData := 0 \<rparr>) (fix_at 10 20 ''20,10'' 700000)) = []"
proof -
  have off: "transmittingData (init_tx\<lparr> transmittingData := 0 \<rparr>) = 0" by simp
  from switch_off_silences_periodic_only
    [OF off, of plain_platform "fix_at 10 20 ''20,10'' 700000"] off
  show ?thesis by simp
qed

section \<open>The forced position publish\<close>



end
